theory Spec2Isabelle
  imports Main
begin

section \<open>The cached warehouse access of api.py\<close>

text \<open>
  A bound parameter is a Python string (entity name, date, category) or a Python int
  (the limit). A signature is the pair handed to \<^verbatim>\<open>fetch_query_cached\<close>: the query
  text and the tuple of bound parameters.
\<close>

datatype param = PStr string | PInt int

type_synonym signature = "string \<times> param list"

text \<open>An exception raised while connecting to the warehouse or executing the query.\<close>

datatype error = UpstreamError string

text \<open>
  The process state. \<open>cache\<close> is the store of the \<^verbatim>\<open>lru_cache\<close> decorator, oldest
  entry first (the order of its circular list, read from the root). \<open>calls\<close> records
  every invocation of the decorated function body, in order. \<open>warehouse\<close> is what
  executing a query on the warehouse gives at this moment: the rows (of type \<open>'r\<close>, one
  dictionary per row) or an exception.
\<close>

record 'r world =
  cache :: "(signature \<times> 'r list) list"
  calls :: "signature list"
  warehouse :: "signature \<Rightarrow> error + 'r list"

text \<open>
  The body of \<^verbatim>\<open>fetch_query_cached\<close> (api.py, lines 40 to 47): connect, execute, fetch
  all rows, close.
\<close>

definition fetch_query_body :: "signature \<Rightarrow> 'r world \<Rightarrow> (error + 'r list) \<times> 'r world" where
  "fetch_query_body key s = (warehouse s key, s\<lparr>calls := calls s @ [key]\<rparr>)"

text \<open>
  \<^verbatim>\<open>functools.lru_cache(maxsize)\<close>, as the bounded wrapper of the standard library
  works: a hit returns the stored result and moves the entry to the most recent end; a
  miss calls the function and, when it returns, stores the result, dropping the oldest
  entry when the store is full. An exception of the function leaves the store as it is.
  With \<open>maxsize = 0\<close> nothing is cached.
\<close>

definition lru_cache ::
  "nat \<Rightarrow> (signature \<Rightarrow> 'r world \<Rightarrow> (error + 'r list) \<times> 'r world) \<Rightarrow>
   signature \<Rightarrow> 'r world \<Rightarrow> (error + 'r list) \<times> 'r world" where
  "lru_cache maxsize user_function key s =
     (if maxsize = 0 then user_function key s
      else case map_of (cache s) key of
        Some result \<Rightarrow>
          (Inr result, s\<lparr>cache := filter (\<lambda>e. fst e \<noteq> key) (cache s) @ [(key, result)]\<rparr>)
      | None \<Rightarrow>
          (case user_function key s of
             (Inl e, s') \<Rightarrow> (Inl e, s')
           | (Inr result, s') \<Rightarrow>
               (Inr result,
                if map_of (cache s') key \<noteq> None then s'
                else if maxsize \<le> length (cache s')
                  then s'\<lparr>cache := tl (cache s') @ [(key, result)]\<rparr>
                  else s'\<lparr>cache := cache s' @ [(key, result)]\<rparr>)))"

text \<open>The decorator's argument at api.py line 38.\<close>

definition MAXSIZE :: nat where
  "MAXSIZE = 512"

definition fetch_query_cached :: "signature \<Rightarrow> 'r world \<Rightarrow> (error + 'r list) \<times> 'r world" where
  "fetch_query_cached = lru_cache MAXSIZE fetch_query_body"

text \<open>The state of a fresh process: nothing cached, nothing executed.\<close>

definition fresh :: "(signature \<Rightarrow> error + 'r list) \<Rightarrow> 'r world" where
  "fresh w = \<lparr>cache = [], calls = [], warehouse = w\<rparr>"

text \<open>The bound of the store, with the keys stored once each.\<close>

definition cache_ok :: "'r world \<Rightarrow> bool" where
  "cache_ok s = (length (cache s) \<le> MAXSIZE \<and> distinct (map fst (cache s)))"

text \<open>
  A sequence of calls of \<^verbatim>\<open>fetch_query_cached\<close>, one signature after the other, and the
  state it leaves.
\<close>

definition run :: "signature list \<Rightarrow> 'r world \<Rightarrow> 'r world" where
  "run keys s = fold (\<lambda>key t. snd (fetch_query_cached key t)) keys s"

text \<open>
  The signatures of a sequence of calls whose query the warehouse \<open>w\<close> answers, each once,
  in the order of their last use; and the \<open>n\<close> most recent elements of such a list.
\<close>

definition used :: "(signature \<Rightarrow> error + 'r list) \<Rightarrow> signature list \<Rightarrow> signature list" where
  "used w keys = remdups (filter (\<lambda>key. case w key of Inl e \<Rightarrow> False | Inr result \<Rightarrow> True) keys)"

definition most_recent :: "nat \<Rightarrow> 'a list \<Rightarrow> 'a list" where
  "most_recent n xs = drop (length xs - n) xs"

section \<open>The endpoints of api.py\<close>

text \<open>
  An optional query parameter is \<open>None\<close> when absent. Python's \<^verbatim>\<open>if county:\<close> holds for
  a string that is present and not empty.
\<close>

definition truthy :: "string option \<Rightarrow> bool" where
  "truthy x = (case x of None \<Rightarrow> False | Some v \<Rightarrow> v \<noteq> [])"

text \<open>
  \<^verbatim>\<open>if x: query += clause; params.append(x)\<close>, the step every endpoint repeats.
\<close>

fun add_filter :: "string \<Rightarrow> string option \<Rightarrow> signature \<Rightarrow> signature" where
  "add_filter clause None (query, params) = (query, params)"
| "add_filter clause (Some v) (query, params) =
     (if v \<noteq> [] then (query @ clause, params @ [PStr v]) else (query, params))"

text \<open>
  What an endpoint returns: the dictionary \<^verbatim>\<open>{"error": msg}\<close>, one row, or the list of
  rows.
\<close>

datatype 'r response = ErrorObj string | Record 'r | Rows "'r list"

text \<open>
  \<^verbatim>\<open>if not result: return {"error": msg}\<close> followed by
  \<^verbatim>\<open>return result[0]\<close> or \<^verbatim>\<open>return result\<close>.
\<close>

fun shape :: "string \<Rightarrow> bool \<Rightarrow> 'r list \<Rightarrow> 'r response" where
  "shape msg single [] = ErrorObj msg"
| "shape msg single (r # rs) = (if single then Record r else Rows (r # rs))"

text \<open>Run the cached query; an exception propagates, a result is shaped.\<close>

definition answer ::
  "signature \<Rightarrow> ('r list \<Rightarrow> 'r response) \<Rightarrow> 'r world \<Rightarrow> (error + 'r response) \<times> 'r world" where
  "answer key f s =
     (case fetch_query_cached key s of
        (Inl e, s') \<Rightarrow> (Inl e, s')
      | (Inr result, s') \<Rightarrow> (Inr (f result), s'))"

subsection \<open>Endpoint 1: demographics\<close>

definition demographics_query :: "string option \<Rightarrow> signature" where
  "demographics_query county =
     add_filter '' AND COUNTY_NAME = %s'' county
       (''SELECT * FROM CALIFORNIA_COVID_ANALYTICS.RAW.CA_COUNTY_DEMOGRAPHICS_2020 WHERE 1=1'', [])"

definition get_demographics ::
  "string option \<Rightarrow> 'r world \<Rightarrow> (error + 'r response) \<times> 'r world" where
  "get_demographics county =
     answer (demographics_query county) (shape ''No demographics found'' (truthy county))"

subsection \<open>Endpoint 2: cases\<close>

definition cases_query :: "string option \<Rightarrow> string option \<Rightarrow> signature" where
  "cases_query date county =
     add_filter '' AND DATE = %s'' date
       (add_filter '' AND AREA = %s'' county
          (''SELECT * FROM CALIFORNIA_COVID_ANALYTICS.ANALYTICS.CASES WHERE 1=1'', []))"

definition get_cases ::
  "string option \<Rightarrow> string option \<Rightarrow> 'r world \<Rightarrow> (error + 'r response) \<times> 'r world" where
  "get_cases date county =
     answer (cases_query date county) (shape ''No cases found'' (truthy county \<and> truthy date))"

subsection \<open>Endpoint 3: cases demographics\<close>

definition cases_demographics_query :: "string option \<Rightarrow> string option \<Rightarrow> signature" where
  "cases_demographics_query date category =
     add_filter '' AND REPORT_DATE = %s'' date
       (add_filter '' AND DEMOGRAPHIC_CATEGORY = %s'' category
          (''SELECT * FROM CALIFORNIA_COVID_ANALYTICS.ANALYTICS.CASES_DEMOGRAPHICS WHERE 1=1'', []))"

definition get_cases_demographics ::
  "string option \<Rightarrow> string option \<Rightarrow> 'r world \<Rightarrow> (error + 'r response) \<times> 'r world" where
  "get_cases_demographics date category =
     answer (cases_demographics_query date category)
       (shape ''No cases demographics found'' (truthy category \<and> truthy date))"

subsection \<open>Endpoint 4: hospitals\<close>

definition hospitals_query :: "string option \<Rightarrow> string option \<Rightarrow> signature" where
  "hospitals_query date county =
     add_filter '' AND TODAYS_DATE = %s'' date
       (add_filter '' AND COUNTY = %s'' county
          (''SELECT * FROM CALIFORNIA_COVID_ANALYTICS.ANALYTICS.HOSPITALS_BY_COUNTY WHERE 1=1'', []))"

definition get_hospitals ::
  "string option \<Rightarrow> string option \<Rightarrow> 'r world \<Rightarrow> (error + 'r response) \<times> 'r world" where
  "get_hospitals date county =
     answer (hospitals_query date county)
       (shape ''No hospital data found'' (truthy county \<and> truthy date))"

subsection \<open>Endpoint 5: cases and demographics (analytics view)\<close>

text \<open>
  \<^verbatim>\<open>if start_date and end_date: query += " AND DATE BETWEEN %s AND %s";
  params.extend([start_date, end_date])\<close>
\<close>

fun add_between :: "string option \<Rightarrow> string option \<Rightarrow> signature \<Rightarrow> signature" where
  "add_between (Some a) (Some b) (query, params) =
     (if a \<noteq> [] \<and> b \<noteq> []
      then (query @ '' AND DATE BETWEEN %s AND %s'', params @ [PStr a, PStr b])
      else (query, params))"
| "add_between start_date end_date (query, params) = (query, params)"

definition view_query ::
  "string option \<Rightarrow> string option \<Rightarrow> string option \<Rightarrow> string option \<Rightarrow> signature" where
  "view_query county date start_date end_date =
     add_between start_date end_date
       (add_filter '' AND DATE = %s'' date
          (add_filter '' AND AREA = %s'' county
             (''SELECT * FROM CALIFORNIA_COVID_ANALYTICS.ANALYTICS.CA_CASES_DEMOGRAPHICS_VIEW WHERE 1=1'', [])))"

definition get_cases_demographics_view ::
  "string option \<Rightarrow> string option \<Rightarrow> string option \<Rightarrow> string option \<Rightarrow>
   'r world \<Rightarrow> (error + 'r response) \<times> 'r world" where
  "get_cases_demographics_view county date start_date end_date =
     answer (view_query county date start_date end_date)
       (shape ''No data found with given filters''
          (truthy county \<and>
           (truthy date \<or> (truthy start_date \<and> truthy end_date \<and> start_date = end_date))))"

subsection \<open>Endpoint 6: summary by county\<close>

text \<open>
  The two f-strings of lines 150 and 158 put \<open>metric\<close> into the text as it comes; the
  limit is bound.
\<close>

definition summary_query :: "string option \<Rightarrow> string option \<Rightarrow> string \<Rightarrow> int \<Rightarrow> signature" where
  "summary_query start_date end_date metric limit =
     (case add_filter '' AND DATE <= %s'' end_date
             (add_filter '' AND DATE >= %s'' start_date
                (''SELECT AREA, AVG('' @ metric @ '') AS avg_'' @ metric @
                 '' FROM CALIFORNIA_COVID_ANALYTICS.ANALYTICS.CA_CASES_DEMOGRAPHICS_AGG WHERE 1=1'', []))
      of (query, params) \<Rightarrow>
        (query @ '' GROUP BY AREA ORDER BY avg_'' @ metric @ '' DESC LIMIT %s'',
         params @ [PInt limit]))"

definition get_cases_summary_by_county ::
  "string option \<Rightarrow> string option \<Rightarrow> string \<Rightarrow> int \<Rightarrow>
   'r world \<Rightarrow> (error + 'r response) \<times> 'r world" where
  "get_cases_summary_by_county start_date end_date metric limit =
     answer (summary_query start_date end_date metric limit) Rows"

subsection \<open>Endpoint 7: summary by trend\<close>

definition valid_metrics :: "(string \<times> string) list" where
  "valid_metrics =
     [(''cases'', ''TOTAL_CASES''), (''deaths'', ''TOTAL_DEATHS''),
      (''cases_p_k'', ''CASES_PER_100K''), (''deaths_p_k'', ''DEATHS_PER_100K'')]"

text \<open>
  The message of line 172; \<open>CHR 0x27\<close> is the single quote, and the list of keys is
  printed as Python prints a list of strings.
\<close>

definition invalid_metric_message :: "string \<Rightarrow> string" where
  "invalid_metric_message metric =
     ''Invalid metric '' @ [CHR 0x27] @ metric @ [CHR 0x27] @
     ''. Choose from ['cases', 'deaths', 'cases_p_k', 'deaths_p_k']''"

text \<open>
  Lines 174 to 181. The lookup \<^verbatim>\<open>valid_metrics[metric]\<close> raises KeyError for a key
  that is absent, which is \<open>None\<close> here.
\<close>

fun select_clause :: "string option \<Rightarrow> string option" where
  "select_clause (Some metric) =
     (if metric \<noteq> [] then
        (case map_of valid_metrics metric of
           None \<Rightarrow> None
         | Some column \<Rightarrow>
             Some (if metric \<in> set [''cases'', ''deaths'']
                   then ''SUM('' @ column @ '') AS total_'' @ metric
                   else ''AVG('' @ column @ '') AS '' @ column))
      else Some (''SUM(TOTAL_CASES) AS TOTAL_CASES, SUM(TOTAL_DEATHS) AS TOTAL_DEATHS, '' @
                 ''AVG(CASES_PER_100K) AS CASES_PER_100K, AVG(DEATHS_PER_100K) AS DEATHS_PER_100K''))"
| "select_clause None =
     Some (''SUM(TOTAL_CASES) AS TOTAL_CASES, SUM(TOTAL_DEATHS) AS TOTAL_DEATHS, '' @
           ''AVG(CASES_PER_100K) AS CASES_PER_100K, AVG(DEATHS_PER_100K) AS DEATHS_PER_100K'')"

definition date_expr :: "string \<Rightarrow> string" where
  "date_expr interval = (if interval = ''month'' then ''DATE_TRUNC('month', DATE)'' else ''DATE'')"

definition trend_query :: "string option \<Rightarrow> string \<Rightarrow> string \<Rightarrow> signature" where
  "trend_query county clause interval =
     add_filter '' AND AREA = %s'' county
       (''SELECT '' @ date_expr interval @ '' AS period, '' @ clause @
        '' FROM CALIFORNIA_COVID_ANALYTICS.ANALYTICS.CA_TREND_MV WHERE 1=1'', [])"

text \<open>
  Line 171, \<^verbatim>\<open>if metric and metric not in valid_metrics\<close>: the metric that is
  refused, if any.
\<close>

fun refused_metric :: "string option \<Rightarrow> string option" where
  "refused_metric None = None"
| "refused_metric (Some metric) =
     (if metric \<noteq> [] \<and> metric \<notin> fst ` set valid_metrics then Some metric else None)"

text \<open>
  The result of \<^verbatim>\<open>get_trend\<close>: \<open>None\<close> stands for the KeyError of the lookup, which the
  check of line 171 excludes.
\<close>

definition get_trend ::
  "string option \<Rightarrow> string option \<Rightarrow> string \<Rightarrow> 'r world \<Rightarrow>
   ((error + 'r response) \<times> 'r world) option" where
  "get_trend county metric interval s =
     (case refused_metric metric of
        Some m \<Rightarrow> Some (Inr (ErrorObj (invalid_metric_message m)), s)
      | None \<Rightarrow>
          (case select_clause metric of
             None \<Rightarrow> None
           | Some clause \<Rightarrow> Some (answer (trend_query county clause interval) Rows s)))"

text \<open>
  The enumeration as the specification words it, to compare with the keys of
  \<open>valid_metrics\<close>.
\<close>

definition spec_metric_enumeration :: "string list" where
  "spec_metric_enumeration = [''cases'', ''deaths'', ''cases_per_100k'', ''deaths_per_100k'']"

section \<open>The forecasting branch of analytics.py\<close>

text \<open>
  A period is a calendar date (year, month, day): the trend rows requested with
  \<^verbatim>\<open>interval = "day"\<close> carry dates, and \<^verbatim>\<open>pd.to_datetime\<close> turns them into midnight
  timestamps. The model leaves the bounds of the timestamp type aside.
\<close>

type_synonym date = "int \<times> nat \<times> nat"

definition is_leap :: "int \<Rightarrow> bool" where
  "is_leap y = (y mod 4 = 0 \<and> (y mod 100 \<noteq> 0 \<or> y mod 400 = 0))"

definition days_in_month :: "int \<Rightarrow> nat \<Rightarrow> nat" where
  "days_in_month y m =
     (if m = 2 then (if is_leap y then 29 else 28)
      else if m = 4 \<or> m = 6 \<or> m = 9 \<or> m = 11 then 30 else 31)"

text \<open>\<^verbatim>\<open>t + pd.Timedelta(days=1)\<close> on a date.\<close>

fun next_day :: "date \<Rightarrow> date" where
  "next_day (y, m, d) =
     (if d < days_in_month y m then (y, m, d + 1)
      else if m < 12 then (y, m + 1, 1)
      else (y + 1, 1, 1))"

text \<open>\<^verbatim>\<open>pd.date_range(start, periods=n)\<close>: the default frequency is one day.\<close>

fun date_range :: "date \<Rightarrow> nat \<Rightarrow> date list" where
  "date_range start 0 = []"
| "date_range start (Suc n) = start # date_range (next_day start) n"


text \<open>
  A row of the trend endpoint is a JSON object whose keys are the columns the trend query
  names: \<open>PERIOD\<close> and the columns of the metrics. Its cells (of type \<open>'c\<close>) are JSON
  values. \<open>metric_map\<close> is the dictionary of lines 63 to 68.
\<close>

datatype column = PERIOD | TOTAL_CASES | TOTAL_DEATHS | CASES_PER_100K | DEATHS_PER_100K

type_synonym 'c row = "(column \<times> 'c) list"

definition metric_map :: "(string \<times> column) list" where
  "metric_map =
     [(''cases'', TOTAL_CASES), (''deaths'', TOTAL_DEATHS),
      (''cases_p_k'', CASES_PER_100K), (''deaths_p_k'', DEATHS_PER_100K)]"

text \<open>
  \<^verbatim>\<open>df.columns\<close> of \<^verbatim>\<open>pd.DataFrame(rows)\<close>: a column is in the frame when some row has
  the key.
\<close>

definition has_column :: "column \<Rightarrow> 'c row list \<Rightarrow> bool" where
  "has_column c rows = list_ex (\<lambda>row. c \<in> fst ` set row) rows"

text \<open>
  Python's truth value of \<^verbatim>\<open>res.json()\<close> (line 60): a list or a dictionary is true when
  it is not empty, and the error object always has its one key.
\<close>

fun truthy_json :: "'c row response \<Rightarrow> bool" where
  "truthy_json (ErrorObj msg) = True"
| "truthy_json (Record r) = (r \<noteq> [])"
| "truthy_json (Rows rows) = (rows \<noteq> [])"

text \<open>
  Lines 75 and 76. The coercions of pandas are parameters: \<open>to_datetime cell\<close> and
  \<open>to_numeric cell\<close> are what \<^verbatim>\<open>pd.to_datetime(errors='coerce')\<close> and
  \<^verbatim>\<open>pd.to_numeric(errors='coerce')\<close> make of a cell, \<open>None\<close> standing for NaT and NaN.
  A row without the key has a missing cell in the frame, which stays missing.
\<close>

definition coerced :: "('c \<Rightarrow> 'a option) \<Rightarrow> column \<Rightarrow> 'c row \<Rightarrow> 'a option" where
  "coerced f c row = (case map_of row c of None \<Rightarrow> None | Some cell \<Rightarrow> f cell)"

text \<open>
  Line 77: \<^verbatim>\<open>dropna(subset=['period', 'value'])\<close> keeps the rows that have both a period
  and a value.
\<close>

fun dropna :: "(date option \<times> 'v option) list \<Rightarrow> (date \<times> 'v) list" where
  "dropna [] = []"
| "dropna ((Some p, Some v) # rows) = (p, v) # dropna rows"
| "dropna (_ # rows) = dropna rows"

text \<open>The frame after line 77: the series of (period, value), in the order of the rows.\<close>

definition cleaned ::
  "('c \<Rightarrow> date option) \<Rightarrow> ('c \<Rightarrow> 'v option) \<Rightarrow> column \<Rightarrow> 'c row list \<Rightarrow> (date \<times> 'v) list" where
  "cleaned to_datetime to_numeric metric_col rows =
     dropna (map (\<lambda>row. (coerced to_datetime PERIOD row, coerced to_numeric metric_col row)) rows)"

text \<open>
  Line 86: \<^verbatim>\<open>pd.date_range(df.index[-1] + pd.Timedelta(days=1), periods=forecast_horizon)\<close>.
  On an empty index \<^verbatim>\<open>df.index[-1]\<close> raises IndexError.
\<close>

definition forecast_dates :: "date list \<Rightarrow> nat \<Rightarrow> date list option" where
  "forecast_dates index horizon =
     (if index = [] then None else Some (date_range (next_day (last index)) horizon))"

text \<open>
  The forecast of the fitted model is a series of pandas: values under labels, each label
  once. statsmodels labels the values with dates when it finds a frequency in the index
  of the observed series, and with integer positions otherwise.
\<close>

datatype label = Day date | Position int

text \<open>
  Line 87: \<^verbatim>\<open>pd.DataFrame({'value': forecast}, index=forecast_dates)\<close> aligns the series
  with the index: the row of a date holds the value the series has under that date, and
  NaN (\<open>None\<close>) when the series has no such label.
\<close>

definition forecast_df :: "(label \<Rightarrow> 'v option) \<Rightarrow> date list \<Rightarrow> (date \<times> 'v option) list" where
  "forecast_df forecast dates = map (\<lambda>d. (d, forecast (Day d))) dates"

text \<open>
  What the page shows: the warning of line 106, of line 72 or of line 80, the error of
  line 104 with the message of the exception, an exception that nothing catches, or the
  chart of the observed rows and the forecast rows.
\<close>

datatype 'v outcome =
    NoTrendData
  | NoDataForMetric
  | NoValidData
  | ForecastError string
  | Raised string
  | Forecast "(date \<times> 'v) list" "(date \<times> 'v option) list"

text \<open>
  Lines 60 to 106, for the response of the trend request: \<open>ok\<close> is \<^verbatim>\<open>res.ok\<close> and \<open>json\<close>
  is \<^verbatim>\<open>res.json()\<close>. The model of statsmodels is a parameter: \<open>arima df steps\<close> is what
  constructing \<^verbatim>\<open>ARIMA(df['value'], order=(1,1,1))\<close>, fitting it and forecasting \<open>steps\<close>
  values gives, the message of an exception or the forecast series.
  The second component of the result lists the series the model was fitted on, so it is
  empty exactly when no fit was attempted.
  Outside the \<^verbatim>\<open>try\<close> block nothing catches an exception: \<^verbatim>\<open>pd.DataFrame\<close> of a
  dictionary of scalars raises ValueError (line 61), a metric that is not a key of the
  dictionary raises KeyError (line 69), and so does a frame without a period column
  (line 75). The IndexError of line 86 is caught like any exception of the block; the
  check of line 79 excludes it.
\<close>

definition time_series_forecasting ::
  "((date \<times> 'v) list \<Rightarrow> nat \<Rightarrow> string + (label \<Rightarrow> 'v option)) \<Rightarrow>
   ('c \<Rightarrow> date option) \<Rightarrow> ('c \<Rightarrow> 'v option) \<Rightarrow>
   bool \<Rightarrow> 'c row response \<Rightarrow> string \<Rightarrow> nat \<Rightarrow>
   'v outcome \<times> (date \<times> 'v) list list" where
  "time_series_forecasting arima to_datetime to_numeric ok json selected_metric forecast_horizon =
     (if ok \<and> truthy_json json then
        (case json of
           Rows rows \<Rightarrow>
             (case map_of metric_map selected_metric of
                None \<Rightarrow> (Raised ''KeyError'', [])
              | Some metric_col \<Rightarrow>
                  if \<not> has_column metric_col rows then (NoDataForMetric, [])
                  else if \<not> has_column PERIOD rows then (Raised ''KeyError'', [])
                  else
                    (let df = cleaned to_datetime to_numeric metric_col rows in
                     if df = [] then (NoValidData, [])
                     else case arima df forecast_horizon of
                       Inl e \<Rightarrow> (ForecastError e, [df])
                     | Inr forecast \<Rightarrow>
                         (case forecast_dates (map fst df) forecast_horizon of
                            None \<Rightarrow>
                              (ForecastError ''index -1 is out of bounds for axis 0 with size 0'',
                               [df])
                          | Some dates \<Rightarrow> (Forecast df (forecast_df forecast dates), [df]))))
         | ErrorObj msg \<Rightarrow> (Raised ''ValueError'', [])
         | Record r \<Rightarrow> (Raised ''ValueError'', []))
      else (NoTrendData, []))"


text \<open>The sum of the order terms of the model of line 83, \<open>(1, 1, 1)\<close>.\<close>

definition order_sum :: nat where
  "order_sum = 1 + 1 + 1"



subsection \<open>Concrete responses\<close>

text \<open>
  For the concrete runs below: JSON cells, and coercions that agree with pandas on the
  cells of these runs, which are dates written \<^verbatim>\<open>YYYY-MM-DD\<close>, JSON numbers and nulls (an
  ISO date gives that date, a number gives itself, null gives NaT and NaN). The general
  theorems hold for any coercions.
\<close>

datatype cell = Null | Text string | Number int

definition digit :: "char \<Rightarrow> nat option" where
  "digit c = (if 48 \<le> (of_char c :: nat) \<and> (of_char c :: nat) \<le> 57
              then Some (of_char c - 48) else None)"

fun number :: "nat \<Rightarrow> string \<Rightarrow> nat option" where
  "number n [] = Some n"
| "number n (c # cs) = (case digit c of None \<Rightarrow> None | Some k \<Rightarrow> number (10 * n + k) cs)"

definition iso_date :: "string \<Rightarrow> date option" where
  "iso_date s =
     (if length s = 10 \<and> s ! 4 = CHR ''-'' \<and> s ! 7 = CHR ''-'' then
        (case (number 0 (take 4 s), number 0 (take 2 (drop 5 s)), number 0 (drop 8 s)) of
           (Some y, Some m, Some d) \<Rightarrow>
             if 1 \<le> m \<and> m \<le> 12 \<and> 1 \<le> d \<and> d \<le> days_in_month (int y) m
             then Some (int y, m, d) else None
         | _ \<Rightarrow> None)
      else None)"

fun iso_datetime :: "cell \<Rightarrow> date option" where
  "iso_datetime (Text s) = iso_date s"
| "iso_datetime c = None"

fun json_number :: "cell \<Rightarrow> int option" where
  "json_number (Number n) = Some n"
| "json_number c = None"


text \<open>
  Twelve rows of daily cases, 18 to 29 February 2020, and twelve rows of cases on the
  first day of each month of 2020.
\<close>

definition daily_rows :: "cell row list" where
  "daily_rows =
     [[(PERIOD, Text ''2020-02-18''), (TOTAL_CASES, Number 120)],
      [(PERIOD, Text ''2020-02-19''), (TOTAL_CASES, Number 135)],
      [(PERIOD, Text ''2020-02-20''), (TOTAL_CASES, Number 128)],
      [(PERIOD, Text ''2020-02-21''), (TOTAL_CASES, Number 150)],
      [(PERIOD, Text ''2020-02-22''), (TOTAL_CASES, Number 171)],
      [(PERIOD, Text ''2020-02-23''), (TOTAL_CASES, Number 160)],
      [(PERIOD, Text ''2020-02-24''), (TOTAL_CASES, Number 182)],
      [(PERIOD, Text ''2020-02-25''), (TOTAL_CASES, Number 190)],
      [(PERIOD, Text ''2020-02-26''), (TOTAL_CASES, Number 205)],
      [(PERIOD, Text ''2020-02-27''), (TOTAL_CASES, Number 198)],
      [(PERIOD, Text ''2020-02-28''), (TOTAL_CASES, Number 220)],
      [(PERIOD, Text ''2020-02-29''), (TOTAL_CASES, Number 214)]]"


section \<open>Properties of the cached access and of the endpoints\<close>

lemma answer_fst:
  "fst (answer key f s) =
     (case fst (fetch_query_cached key s) of Inl e \<Rightarrow> Inl e | Inr result \<Rightarrow> Inr (f result))"
  by (simp add: answer_def split: prod.splits sum.splits)

lemma answer_snd: "snd (answer key f s) = snd (fetch_query_cached key s)"
  by (simp add: answer_def split: prod.splits sum.splits)

lemma fetch_fresh:
  "w key = Inr result \<Longrightarrow>
   fetch_query_cached key (fresh w) =
     (Inr result, \<lparr>cache = [(key, result)], calls = [key], warehouse = w\<rparr>)"
  by (simp add: fetch_query_cached_def lru_cache_def MAXSIZE_def fetch_query_body_def fresh_def)

lemma map_of_filter_other:
  "map_of (filter (\<lambda>e. fst e \<noteq> key) xs) key = None"
  by (induction xs) auto

lemma fetch_hit:
  assumes "map_of (cache s) key = Some result"
  shows "fetch_query_cached key s =
           (Inr result, s\<lparr>cache := filter (\<lambda>e. fst e \<noteq> key) (cache s) @ [(key, result)]\<rparr>)"
  using assms by (simp add: fetch_query_cached_def lru_cache_def MAXSIZE_def)

lemma fetch_miss_ok:
  assumes "map_of (cache s) key = None" and "warehouse s key = Inr result"
  shows "fetch_query_cached key s =
           (Inr result,
            s\<lparr>calls := calls s @ [key],
              cache := (if MAXSIZE \<le> length (cache s) then tl (cache s) else cache s) @ [(key, result)]\<rparr>)"
  using assms
  by (simp add: fetch_query_cached_def lru_cache_def MAXSIZE_def fetch_query_body_def)

lemma fetch_miss_error:
  assumes "map_of (cache s) key = None" and "warehouse s key = Inl e"
  shows "fetch_query_cached key s = (Inl e, s\<lparr>calls := calls s @ [key]\<rparr>)"
  using assms
  by (simp add: fetch_query_cached_def lru_cache_def MAXSIZE_def fetch_query_body_def)

lemma map_of_tl_None: "map_of xs key = None \<Longrightarrow> map_of (tl xs) key = None"
  by (cases xs) (auto split: if_splits)

text \<open>
  C3. A call whose signature is not in the store invokes the body exactly once; when the
  body returns, its result is returned and stored under the signature. A call whose
  signature is in the store, in whatever state it is made, returns the stored result, does
  not invoke the body, and leaves the result stored.
\<close>

theorem fetch_query_cached_memoizes:
  "(map_of (cache s) key = None \<longrightarrow>
      calls (snd (fetch_query_cached key s)) = calls s @ [key] \<and>
      (\<forall>result. warehouse s key = Inr result \<longrightarrow>
         fst (fetch_query_cached key s) = Inr result \<and>
         map_of (cache (snd (fetch_query_cached key s))) key = Some result)) \<and>
   (map_of (cache s) key = Some stored \<longrightarrow>
      fst (fetch_query_cached key s) = Inr stored \<and>
      calls (snd (fetch_query_cached key s)) = calls s \<and>
      map_of (cache (snd (fetch_query_cached key s))) key = Some stored)"
proof (intro conjI impI allI)
  assume m: "map_of (cache s) key = None"
  show "calls (snd (fetch_query_cached key s)) = calls s @ [key]"
  proof (cases "warehouse s key")
    case (Inl e)
    with m show ?thesis by (simp add: fetch_miss_error)
  next
    case (Inr result)
    with m show ?thesis by (simp add: fetch_miss_ok)
  qed
next
  fix result
  assume m: "map_of (cache s) key = None" and w: "warehouse s key = Inr result"
  then show "fst (fetch_query_cached key s) = Inr result"
    by (simp add: fetch_miss_ok)
  from m w show "map_of (cache (snd (fetch_query_cached key s))) key = Some result"
    by (simp add: fetch_miss_ok map_add_def map_of_tl_None)
next
  assume h: "map_of (cache s) key = Some stored"
  then show "fst (fetch_query_cached key s) = Inr stored"
    and "calls (snd (fetch_query_cached key s)) = calls s"
    and "map_of (cache (snd (fetch_query_cached key s))) key = Some stored"
    by (simp_all add: fetch_hit map_add_def map_of_filter_other)
qed

theorem fetch_query_cached_memoizes_witness:
  "map_of (cache (fresh (\<lambda>_. Inr [1::nat]))) (''SELECT 1'', []) = None \<and>
   fetch_query_cached (''SELECT 1'', []) (fresh (\<lambda>_. Inr [1::nat])) =
     (Inr [1], \<lparr>cache = [((''SELECT 1'', []), [1])], calls = [(''SELECT 1'', [])],
               warehouse = \<lambda>_. Inr [1]\<rparr>) \<and>
   map_of (cache \<lparr>cache = [((''SELECT 1'', []), [1::nat])], calls = [(''SELECT 1'', [])],
                  warehouse = \<lambda>_. Inr [2]\<rparr>) (''SELECT 1'', []) = Some [1] \<and>
   fst (fetch_query_cached (''SELECT 1'', [])
          \<lparr>cache = [((''SELECT 1'', []), [1::nat])], calls = [(''SELECT 1'', [])],
           warehouse = \<lambda>_. Inr [2]\<rparr>) = Inr [1] \<and>
   calls (snd (fetch_query_cached (''SELECT 1'', [])
          \<lparr>cache = [((''SELECT 1'', []), [1::nat])], calls = [(''SELECT 1'', [])],
           warehouse = \<lambda>_. Inr [2]\<rparr>)) = [(''SELECT 1'', [])]"
  using fetch_query_cached_memoizes
      [of "\<lparr>cache = [((''SELECT 1'', []), [1::nat])], calls = [(''SELECT 1'', [])],
           warehouse = \<lambda>_. Inr [2]\<rparr>" "(''SELECT 1'', [])" "[1]"]
    fetch_query_cached_memoizes [of "fresh (\<lambda>_. Inr [1::nat])" "(''SELECT 1'', [])" "[1]"]
  by (simp add: fresh_def fetch_miss_ok MAXSIZE_def)

subsection \<open>The bound of the store and the order of eviction\<close>

lemma cache_ok_step: "cache_ok s \<Longrightarrow> cache_ok (snd (fetch_query_cached key s))"
proof (cases "map_of (cache s) key")
  case None
  assume ok: "cache_ok s"
  from None have nk: "key \<notin> fst ` set (cache s)" by (simp add: map_of_eq_None_iff)
  show ?thesis
  proof (cases "warehouse s key")
    case (Inl e)
    with None ok show ?thesis by (simp add: fetch_miss_error cache_ok_def)
  next
    case (Inr result)
    have "key \<notin> fst ` set (tl (cache s))" using nk by (cases "cache s") auto
    moreover have "distinct (map fst (tl (cache s)))"
      using ok by (cases "cache s") (auto simp: cache_ok_def)
    ultimately show ?thesis
      using None Inr ok nk by (auto simp add: fetch_miss_ok cache_ok_def MAXSIZE_def)
  qed
next
  case (Some result)
  assume ok: "cache_ok s"
  from Some have "(key, result) \<in> set (cache s)" by (rule map_of_SomeD)
  then have "length (filter (\<lambda>e. fst e \<noteq> key) (cache s)) < length (cache s)"
    by (intro length_filter_less[of "(key, result)"]) auto
  moreover have "distinct (map fst (filter (\<lambda>e. fst e \<noteq> key) (cache s)))"
    using ok by (simp add: cache_ok_def distinct_map_filter)
  moreover have "key \<notin> fst ` set (filter (\<lambda>e. fst e \<noteq> key) (cache s))" by auto
  ultimately show ?thesis
    using Some ok by (simp add: fetch_hit cache_ok_def)
qed

lemma remdups_snoc:
  "remdups (xs @ [k]) = filter (\<lambda>x. x \<noteq> k) (remdups xs) @ [k]"
  by (induction xs) auto

lemma filter_absent: "k \<notin> set xs \<Longrightarrow> filter (\<lambda>x. x \<noteq> k) xs = xs"
  by (induction xs) auto

lemma length_filter_distinct:
  "distinct xs \<Longrightarrow> k \<in> set xs \<Longrightarrow> length (filter (\<lambda>x. x \<noteq> k) xs) = length xs - 1"
proof (induction xs)
  case Nil
  then show ?case by simp
next
  case (Cons a xs)
  show ?case
  proof (cases "a = k")
    case True
    with Cons.prems have "k \<notin> set xs" by simp
    with True show ?thesis by (simp add: filter_absent)
  next
    case False
    with Cons.prems have k: "k \<in> set xs" and d: "distinct xs" by simp_all
    from k have "0 < length xs" by (cases xs) auto
    with Cons.IH [OF d k] False show ?thesis by simp
  qed
qed

lemma most_recent_length: "length (most_recent n xs) \<le> n"
  by (simp add: most_recent_def)

lemma most_recent_hit:
  assumes "distinct U" and "k \<in> set (most_recent n U)"
  shows "most_recent n (filter (\<lambda>x. x \<noteq> k) U @ [k]) = filter (\<lambda>x. x \<noteq> k) (most_recent n U) @ [k]"
proof -
  define A where "A = take (length U - n) U"
  define B where "B = drop (length U - n) U"
  have U: "U = A @ B" by (simp add: A_def B_def)
  have kB: "k \<in> set B" using assms(2) by (simp add: most_recent_def B_def)
  have kA: "k \<notin> set A" using assms(1) kB U by auto
  have fA: "filter (\<lambda>x. x \<noteq> k) A = A" using kA by (rule filter_absent)
  have dB: "distinct B" using assms(1) U by simp
  have lB: "length (filter (\<lambda>x. x \<noteq> k) B) = length B - 1"
    using dB kB by (rule length_filter_distinct)
  have Bpos: "0 < length B" using kB by (cases B) auto
  have lA: "length A = length U - n" by (simp add: A_def)
  have lBn: "length B = length U - (length U - n)" by (simp add: B_def)
  have "length (filter (\<lambda>x. x \<noteq> k) U @ [k]) - n = length A"
    using lB Bpos lA lBn by (subst U) (simp add: fA)
  then have "most_recent n (filter (\<lambda>x. x \<noteq> k) U @ [k]) = filter (\<lambda>x. x \<noteq> k) B @ [k]"
    unfolding most_recent_def by (subst (2) U) (simp add: fA)
  then show ?thesis by (simp add: most_recent_def B_def)
qed

lemma most_recent_miss:
  assumes "distinct U" and "k \<notin> set (most_recent n U)" and "0 < n"
  shows "most_recent n (filter (\<lambda>x. x \<noteq> k) U @ [k]) =
           (if n \<le> length (most_recent n U) then tl (most_recent n U) else most_recent n U) @ [k]"
proof -
  define A where "A = take (length U - n) U"
  define B where "B = drop (length U - n) U"
  have U: "U = A @ B" by (simp add: A_def B_def)
  have kB: "k \<notin> set B" using assms(2) by (simp add: most_recent_def B_def)
  have fB: "filter (\<lambda>x. x \<noteq> k) B = B" using kB by (rule filter_absent)
  have lA: "length A = length U - n" by (simp add: A_def)
  have lB: "length B = length U - (length U - n)" by (simp add: B_def)
  have mr: "most_recent n U = B" by (simp add: most_recent_def B_def)
  show ?thesis
  proof (cases "k \<in> set A")
    case True
    then have Apos: "0 < length A" by (cases A) auto
    with lA have big: "n < length U" by simp
    then have lBn: "length B = n" using lB by simp
    have dA: "distinct A" using assms(1) U by simp
    have lfA: "length (filter (\<lambda>x. x \<noteq> k) A) = length A - 1"
      using dA True by (rule length_filter_distinct)
    have "length (filter (\<lambda>x. x \<noteq> k) U @ [k]) - n = Suc (length (filter (\<lambda>x. x \<noteq> k) A))"
      using lfA Apos lBn by (subst U) (simp add: fB)
    then have "most_recent n (filter (\<lambda>x. x \<noteq> k) U @ [k]) = drop 1 (B @ [k])"
      unfolding most_recent_def by (subst (2) U) (simp add: fB)
    moreover have "B \<noteq> []" using lBn assms(3) by auto
    ultimately show ?thesis using mr lBn assms(3) by (simp add: drop_Suc)
  next
    case False
    then have fU: "filter (\<lambda>x. x \<noteq> k) U = U" using kB U by (intro filter_absent) simp
    show ?thesis
    proof (cases "n \<le> length U")
      case True
      then have lBn: "length B = n" using lB by simp
      have "B \<noteq> []" using lBn assms(3) by auto
      have "most_recent n (U @ [k]) = drop (Suc (length U - n)) U @ [k]"
        using True assms(3) by (simp add: most_recent_def Suc_diff_le)
      also have "drop (Suc (length U - n)) U = tl B"
        by (simp add: B_def drop_Suc tl_drop)
      finally show ?thesis using fU mr lBn by simp
    next
      case False
      then have "B = U" by (simp add: B_def)
      with False fU mr show ?thesis by (simp add: most_recent_def)
    qed
  qed
qed

lemma run_snoc: "run (keys @ [key]) s = snd (fetch_query_cached key (run keys s))"
  by (simp add: run_def)

lemma warehouse_step: "warehouse (snd (fetch_query_cached key s)) = warehouse s"
  by (cases "map_of (cache s) key"; cases "warehouse s key")
     (simp_all add: fetch_hit fetch_miss_ok fetch_miss_error)

lemma warehouse_run: "warehouse (run keys s) = warehouse s"
  by (induction keys rule: rev_induct) (simp_all add: run_def warehouse_step)

lemma used_snoc:
  "used w (keys @ [key]) =
     (case w key of Inl e \<Rightarrow> used w keys
      | Inr result \<Rightarrow> filter (\<lambda>x. x \<noteq> key) (used w keys) @ [key])"
  by (simp add: used_def remdups_snoc split: sum.splits)

lemma used_answered: "k \<in> set (used w keys) \<Longrightarrow> \<exists>result. w k = Inr result"
  by (auto simp add: used_def split: sum.splits)

lemma set_most_recent: "set (most_recent n xs) \<subseteq> set xs"
  by (simp add: most_recent_def set_drop_subset)

lemma map_fst_filter_key:
  "map fst (filter (\<lambda>e. fst e \<noteq> k) xs) = filter (\<lambda>x. x \<noteq> k) (map fst xs)"
  by (induction xs) auto

lemma cache_keys_run:
  "map fst (cache (run keys (fresh w))) = most_recent MAXSIZE (used w keys)"
proof (induction keys rule: rev_induct)
  case Nil
  show ?case by (simp add: run_def fresh_def used_def most_recent_def)
next
  case (snoc k keys)
  let ?s = "run keys (fresh w)"
  let ?U = "used w keys"
  have ws: "warehouse ?s = w" by (simp add: warehouse_run fresh_def)
  have dU: "distinct ?U" by (simp add: used_def)
  have pos: "0 < MAXSIZE" by (simp add: MAXSIZE_def)
  have len: "length (cache ?s) = length (most_recent MAXSIZE ?U)"
    using snoc.IH by (metis length_map)
  show ?case
  proof (cases "map_of (cache ?s) k")
    case None
    then have "k \<notin> fst ` set (cache ?s)" by (simp add: map_of_eq_None_iff)
    then have nk: "k \<notin> set (most_recent MAXSIZE ?U)" using snoc.IH by (metis set_map)
    show ?thesis
    proof (cases "w k")
      case (Inl e)
      with None ws snoc.IH show ?thesis
        by (simp add: run_snoc fetch_miss_error used_snoc)
    next
      case (Inr r)
      with None ws have "map fst (cache (run (keys @ [k]) (fresh w))) =
          (if MAXSIZE \<le> length (cache ?s) then tl (map fst (cache ?s)) else map fst (cache ?s)) @ [k]"
        by (simp add: run_snoc fetch_miss_ok map_tl)
      also have "\<dots> = (if MAXSIZE \<le> length (most_recent MAXSIZE ?U)
                       then tl (most_recent MAXSIZE ?U) else most_recent MAXSIZE ?U) @ [k]"
        using snoc.IH len by simp
      also have "\<dots> = most_recent MAXSIZE (filter (\<lambda>x. x \<noteq> k) ?U @ [k])"
        using most_recent_miss [OF dU nk pos] by simp
      finally show ?thesis using Inr by (simp add: used_snoc)
    qed
  next
    case (Some r)
    then have "k \<in> fst ` set (cache ?s)" by (metis map_of_SomeD fst_conv image_eqI)
    then have ik: "k \<in> set (most_recent MAXSIZE ?U)" using snoc.IH by (metis set_map)
    then have "k \<in> set ?U" using set_most_recent [of MAXSIZE ?U] by auto
    then obtain r' where wk: "w k = Inr r'" using used_answered [of k w keys] by auto
    from Some have "map fst (cache (run (keys @ [k]) (fresh w))) =
        filter (\<lambda>x. x \<noteq> k) (map fst (cache ?s)) @ [k]"
      by (simp add: run_snoc fetch_hit map_fst_filter_key)
    also have "\<dots> = filter (\<lambda>x. x \<noteq> k) (most_recent MAXSIZE ?U) @ [k]"
      using snoc.IH by simp
    also have "\<dots> = most_recent MAXSIZE (filter (\<lambda>x. x \<noteq> k) ?U @ [k])"
      using most_recent_hit [OF dU ik] by simp
    finally show ?thesis using wk by (simp add: used_snoc)
  qed
qed

lemma full_cache_evicts_oldest:
  assumes "length (cache s) = MAXSIZE" and "map_of (cache s) key = None"
    and "warehouse s key = Inr result"
  shows "cache (snd (fetch_query_cached key s)) = tl (cache s) @ [(key, result)]"
  using assms by (simp add: fetch_miss_ok)

text \<open>
  C4. The store of a fresh process is within the bound of 512 signatures, each stored
  once, and every call keeps it so. After any sequence of calls the signatures in the
  store are the 512 most recently used ones among those the warehouse answered, oldest
  first: whatever was used less recently has been evicted.
\<close>

theorem cache_bounded_lru:
  "cache_ok (fresh w) \<and>
   (cache_ok s \<longrightarrow> cache_ok (snd (fetch_query_cached key s))) \<and>
   map fst (cache (run keys (fresh w))) = most_recent MAXSIZE (used w keys) \<and>
   length (cache (run keys (fresh w))) \<le> 512"
proof (intro conjI impI)
  show "cache_ok (fresh w)" by (simp add: cache_ok_def fresh_def)
  show "cache_ok (snd (fetch_query_cached key s))" if "cache_ok s"
    using that by (rule cache_ok_step)
  show k: "map fst (cache (run keys (fresh w))) = most_recent MAXSIZE (used w keys)"
    by (rule cache_keys_run)
  have "length (map fst (cache (run keys (fresh w)))) \<le> MAXSIZE"
    unfolding k by (rule most_recent_length)
  then show "length (cache (run keys (fresh w))) \<le> 512" by (simp add: MAXSIZE_def)
qed

theorem cache_bounded_lru_witness:
  "cache_ok (fresh (\<lambda>_. Inr [1::nat])) \<and>
   cache_ok (snd (fetch_query_cached (''SELECT 1'', []) (fresh (\<lambda>_. Inr [1::nat])))) \<and>
   map fst (cache (run [(''SELECT 1'', []), (''SELECT 2'', []), (''SELECT 1'', [])]
                    (fresh (\<lambda>_. Inr [1::nat])))) =
     [(''SELECT 2'', []), (''SELECT 1'', [])]"
  using cache_bounded_lru [of "\<lambda>_. Inr [1::nat]" "fresh (\<lambda>_. Inr [1::nat])" "(''SELECT 1'', [])"
      "[(''SELECT 1'', []), (''SELECT 2'', []), (''SELECT 1'', [])]"]
  by (simp add: used_def most_recent_def MAXSIZE_def)

text \<open>
  A filter value reaches the bound parameters only: the text grows by the fixed clause
  when the value is present and not empty, and stays as it is otherwise.
\<close>

lemma add_filter_text:
  "fst (add_filter clause v (query, params)) = (if truthy v then query @ clause else query)"
  by (cases v) (simp_all add: truthy_def)

lemma add_filter_params:
  "snd (add_filter clause v (query, params)) =
     (case v of None \<Rightarrow> params | Some x \<Rightarrow> if x \<noteq> [] then params @ [PStr x] else params)"
  by (cases v) simp_all

text \<open>
  The trend endpoint puts no text of the caller into its query either: whatever the
  metric, a select clause that is built is one of five fixed texts.
\<close>

lemma select_clause_fixed:
  assumes "select_clause metric = Some clause"
  shows "clause \<in> set [''SUM(TOTAL_CASES) AS total_cases'', ''SUM(TOTAL_DEATHS) AS total_deaths'',
           ''AVG(CASES_PER_100K) AS CASES_PER_100K'', ''AVG(DEATHS_PER_100K) AS DEATHS_PER_100K'',
           ''SUM(TOTAL_CASES) AS TOTAL_CASES, SUM(TOTAL_DEATHS) AS TOTAL_DEATHS, '' @
           ''AVG(CASES_PER_100K) AS CASES_PER_100K, AVG(DEATHS_PER_100K) AS DEATHS_PER_100K'']"
proof (cases metric)
  case None
  with assms show ?thesis by simp
next
  case (Some m)
  show ?thesis
  proof (cases "m = []")
    case True
    with Some assms show ?thesis by simp
  next
    case False
    with Some assms have "map_of valid_metrics m \<noteq> None"
      by (auto split: option.splits)
    then have "m \<in> fst ` set valid_metrics"
      by (simp add: map_of_eq_None_iff)
    then consider "m = ''cases''" | "m = ''deaths''" | "m = ''cases_p_k''" | "m = ''deaths_p_k''"
      by (auto simp add: valid_metrics_def)
    then show ?thesis
    proof cases
      case 1
      with Some assms show ?thesis by (simp add: valid_metrics_def)
    next
      case 2
      with Some assms show ?thesis by (simp add: valid_metrics_def)
    next
      case 3
      with Some assms show ?thesis by (simp add: valid_metrics_def)
    next
      case 4
      with Some assms show ?thesis by (simp add: valid_metrics_def)
    qed
  qed
qed

text \<open>
  C1. The claim: no endpoint puts a value of the caller into the query text. The summary
  endpoint does: at the metric below, the text that is executed holds the caller's
  statement, and the bound parameters hold the limit alone.
\<close>

theorem summary_query_interpolates_metric:
  "summary_query None None ''1) AS x FROM T; DROP TABLE T; --'' 10 =
     (''SELECT AREA, AVG(1) AS x FROM T; DROP TABLE T; --) AS avg_1) AS x FROM T; DROP TABLE T; -- FROM CALIFORNIA_COVID_ANALYTICS.ANALYTICS.CA_CASES_DEMOGRAPHICS_AGG WHERE 1=1 GROUP BY AREA ORDER BY avg_1) AS x FROM T; DROP TABLE T; -- DESC LIMIT %s'',
      [PInt 10])"
  by (simp add: summary_query_def)

text \<open>
  C2, as the code has it. A metric that is present, not empty and not one of \<open>cases\<close>,
  \<open>deaths\<close>, \<open>cases_p_k\<close>, \<open>deaths_p_k\<close> is answered by the error object, and the state is
  the one before the call: nothing was executed or cached. A metric among the four, or
  an absent one, is answered through the cached query, and never by an error object.
\<close>

theorem get_trend_validates_metric:
  "(metric \<noteq> [] \<and> metric \<notin> set [''cases'', ''deaths'', ''cases_p_k'', ''deaths_p_k''] \<longrightarrow>
      get_trend county (Some metric) interval s =
        Some (Inr (ErrorObj (invalid_metric_message metric)), s)) \<and>
   (metric \<in> set [''cases'', ''deaths'', ''cases_p_k'', ''deaths_p_k''] \<longrightarrow>
      (\<exists>clause. get_trend county (Some metric) interval s =
                  Some (answer (trend_query county clause interval) Rows s) \<and>
                (\<forall>msg. fst (answer (trend_query county clause interval) Rows s) \<noteq>
                   Inr (ErrorObj msg)))) \<and>
   (\<exists>clause. get_trend county None interval s =
               Some (answer (trend_query county clause interval) Rows s) \<and>
             (\<forall>msg. fst (answer (trend_query county clause interval) Rows s) \<noteq>
                Inr (ErrorObj msg)))"
  by (auto simp add: get_trend_def valid_metrics_def answer_fst split: sum.splits)

theorem get_trend_validates_metric_witness:
  "get_trend (Some ''Alameda'') (Some ''median'') ''day'' (fresh (\<lambda>_. Inr [3::nat])) =
     Some (Inr (ErrorObj (invalid_metric_message ''median'')), fresh (\<lambda>_. Inr [3])) \<and>
   (\<exists>clause. get_trend (Some ''Alameda'') (Some ''deaths'') ''day'' (fresh (\<lambda>_. Inr [3::nat])) =
      Some (answer (trend_query (Some ''Alameda'') clause ''day'') Rows (fresh (\<lambda>_. Inr [3]))))"
  using get_trend_validates_metric [of "''median''" "Some ''Alameda''" "''day''" "fresh (\<lambda>_. Inr [3::nat])"]
    get_trend_validates_metric [of "''deaths''" "Some ''Alameda''" "''day''" "fresh (\<lambda>_. Inr [3::nat])"]
  by auto

text \<open>
  The enumeration of the specification differs from the keys of the code: the metric
  \<open>cases_per_100k\<close> is refused, and \<open>cases_p_k\<close> is accepted and queried.
\<close>

theorem get_trend_spec_metric_counterexample:
  "''cases_per_100k'' \<in> set spec_metric_enumeration \<and>
   get_trend None (Some ''cases_per_100k'') ''day'' (fresh (\<lambda>_. Inr ([]::nat list))) =
     Some (Inr (ErrorObj (''Invalid metric '' @ [CHR 0x27] @ ''cases_per_100k'' @ [CHR 0x27] @
             ''. Choose from ['cases', 'deaths', 'cases_p_k', 'deaths_p_k']'')),
           fresh (\<lambda>_. Inr [])) \<and>
   ''cases_p_k'' \<notin> set spec_metric_enumeration \<and>
   get_trend None (Some ''cases_p_k'') ''day'' (fresh (\<lambda>_. Inr ([]::nat list))) =
     Some (Inr (Rows []),
           \<lparr>cache = [((''SELECT DATE AS period, AVG(CASES_PER_100K) AS CASES_PER_100K FROM CALIFORNIA_COVID_ANALYTICS.ANALYTICS.CA_TREND_MV WHERE 1=1'', []), [])],
            calls = [(''SELECT DATE AS period, AVG(CASES_PER_100K) AS CASES_PER_100K FROM CALIFORNIA_COVID_ANALYTICS.ANALYTICS.CA_TREND_MV WHERE 1=1'', [])],
            warehouse = \<lambda>_. Inr []\<rparr>)"
  by (simp add: spec_metric_enumeration_def get_trend_def valid_metrics_def invalid_metric_message_def
        trend_query_def date_expr_def answer_def fetch_fresh)

text \<open>
  C8, as the code has it. When an exact date and both ends of a range are supplied, the
  query holds both predicates, the date first, and binds the three values in that order;
  the call is answered from that query like any other.
\<close>

theorem view_date_and_range_conjoined:
  assumes "date \<noteq> []" and "start_date \<noteq> []" and "end_date \<noteq> []"
  shows "view_query county (Some date) (Some start_date) (Some end_date) =
           (fst (add_filter '' AND AREA = %s'' county
                   (''SELECT * FROM CALIFORNIA_COVID_ANALYTICS.ANALYTICS.CA_CASES_DEMOGRAPHICS_VIEW WHERE 1=1'', []))
              @ '' AND DATE = %s'' @ '' AND DATE BETWEEN %s AND %s'',
            snd (add_filter '' AND AREA = %s'' county
                   (''SELECT * FROM CALIFORNIA_COVID_ANALYTICS.ANALYTICS.CA_CASES_DEMOGRAPHICS_VIEW WHERE 1=1'', []))
              @ [PStr date, PStr start_date, PStr end_date]) \<and>
         get_cases_demographics_view county (Some date) (Some start_date) (Some end_date) s =
           answer (view_query county (Some date) (Some start_date) (Some end_date))
             (shape ''No data found with given filters'' (truthy county)) s"
  using assms
  by (cases "add_filter '' AND AREA = %s'' county
                   (''SELECT * FROM CALIFORNIA_COVID_ANALYTICS.ANALYTICS.CA_CASES_DEMOGRAPHICS_VIEW WHERE 1=1'', [])")
     (simp add: view_query_def get_cases_demographics_view_def truthy_def)

theorem view_date_and_range_conjoined_witness:
  "''2022-12-31'' \<noteq> [] \<and> ''2022-01-01'' \<noteq> [] \<and> ''2022-06-30'' \<noteq> [] \<and>
   view_query (Some ''Alameda'') (Some ''2022-12-31'') (Some ''2022-01-01'') (Some ''2022-06-30'') =
     (''SELECT * FROM CALIFORNIA_COVID_ANALYTICS.ANALYTICS.CA_CASES_DEMOGRAPHICS_VIEW WHERE 1=1 AND AREA = %s AND DATE = %s AND DATE BETWEEN %s AND %s'',
      [PStr ''Alameda'', PStr ''2022-12-31'', PStr ''2022-01-01'', PStr ''2022-06-30''])"
  using view_date_and_range_conjoined [of "''2022-12-31''" "''2022-01-01''" "''2022-06-30''" "Some ''Alameda''"
      "fresh (\<lambda>_. Inr ([]::nat list))"]
  by simp

text \<open>
  A call with a date outside the range it also supplies is answered with the rows of the
  conjoined query, not refused.
\<close>

theorem view_date_and_range_counterexample:
  "view_query None (Some ''2022-12-31'') (Some ''2022-01-01'') (Some ''2022-06-30'') =
     (''SELECT * FROM CALIFORNIA_COVID_ANALYTICS.ANALYTICS.CA_CASES_DEMOGRAPHICS_VIEW WHERE 1=1 AND DATE = %s AND DATE BETWEEN %s AND %s'',
      [PStr ''2022-12-31'', PStr ''2022-01-01'', PStr ''2022-06-30'']) \<and>
   fst (get_cases_demographics_view None (Some ''2022-12-31'') (Some ''2022-01-01'') (Some ''2022-06-30'')
          (fresh (\<lambda>_. Inr [7::nat]))) = Inr (Rows [7]) \<and>
   calls (snd (get_cases_demographics_view None (Some ''2022-12-31'') (Some ''2022-01-01'') (Some ''2022-06-30'')
          (fresh (\<lambda>_. Inr [7::nat])))) =
     [(''SELECT * FROM CALIFORNIA_COVID_ANALYTICS.ANALYTICS.CA_CASES_DEMOGRAPHICS_VIEW WHERE 1=1 AND DATE = %s AND DATE BETWEEN %s AND %s'',
      [PStr ''2022-12-31'', PStr ''2022-01-01'', PStr ''2022-06-30''])]"
  by (simp add: view_query_def get_cases_demographics_view_def answer_def fetch_fresh truthy_def)

text \<open>
  C9. When the query of the demographics endpoint, or of the analytics view, has no
  rows, the endpoint answers with the error object, which is neither a list nor a record.
\<close>

theorem empty_result_reports_error:
  "(fst (fetch_query_cached (demographics_query county) s) = Inr [] \<longrightarrow>
      fst (get_demographics county s) = Inr (ErrorObj ''No demographics found'')) \<and>
   (fst (fetch_query_cached (view_query county date start_date end_date) s) = Inr [] \<longrightarrow>
      fst (get_cases_demographics_view county date start_date end_date s) =
        Inr (ErrorObj ''No data found with given filters''))"
  by (simp add: get_demographics_def get_cases_demographics_view_def answer_fst)

theorem empty_result_reports_error_witness:
  "fst (fetch_query_cached (demographics_query (Some ''Alameda'')) (fresh (\<lambda>_. Inr ([]::nat list)))) = Inr [] \<and>
   fst (get_demographics (Some ''Alameda'') (fresh (\<lambda>_. Inr ([]::nat list)))) =
     Inr (ErrorObj ''No demographics found'') \<and>
   fst (fetch_query_cached (view_query (Some ''Alameda'') (Some ''2022-12-31'') None None)
          (fresh (\<lambda>_. Inr ([]::nat list)))) = Inr [] \<and>
   fst (get_cases_demographics_view (Some ''Alameda'') (Some ''2022-12-31'') None None
          (fresh (\<lambda>_. Inr ([]::nat list)))) = Inr (ErrorObj ''No data found with given filters'')"
  using empty_result_reports_error [of "Some ''Alameda''" "fresh (\<lambda>_. Inr ([]::nat list))"
      "Some ''2022-12-31''" None None]
  by (simp add: fetch_fresh)

text \<open>
  C10. When the query of the cases endpoint has at least one row, the answer is the first
  row alone if both the county and the date are present and not empty, and the whole list
  otherwise, also when the list has one row.
\<close>

theorem get_cases_shape:
  assumes "fst (fetch_query_cached (cases_query date county) s) = Inr (r # rs)"
  shows "fst (get_cases date county s) =
           Inr (if truthy county \<and> truthy date then Record r else Rows (r # rs))"
  using assms by (simp add: get_cases_def answer_fst)

theorem get_cases_shape_witness:
  "fst (fetch_query_cached (cases_query (Some ''2022-12-31'') (Some ''Alameda''))
          (fresh (\<lambda>_. Inr [1::nat, 2]))) = Inr [1, 2] \<and>
   fst (get_cases (Some ''2022-12-31'') (Some ''Alameda'') (fresh (\<lambda>_. Inr [1::nat, 2]))) =
     Inr (Record 1) \<and>
   fst (get_cases (Some ''2022-12-31'') None (fresh (\<lambda>_. Inr [1::nat]))) = Inr (Rows [1])"
proof -
  have a: "fst (fetch_query_cached (cases_query (Some ''2022-12-31'') (Some ''Alameda''))
          (fresh (\<lambda>_. Inr [1::nat, 2]))) = Inr [1, 2]"
    by (simp add: fetch_fresh)
  have b: "fst (fetch_query_cached (cases_query (Some ''2022-12-31'') None)
          (fresh (\<lambda>_. Inr [1::nat]))) = Inr [1]"
    by (simp add: fetch_fresh)
  show ?thesis
    using a get_cases_shape [OF a] get_cases_shape [OF b] by (simp add: truthy_def)
qed

section \<open>Properties of the forecasting branch\<close>









lemma dropna_nonempty:
  "dropna xs \<noteq> [] \<Longrightarrow> \<exists>p v. (Some p, Some v) \<in> set xs"
  by (induction xs rule: dropna.induct) auto

lemma coerced_Some_column: "coerced f c row = Some x \<Longrightarrow> c \<in> fst ` set row"
  by (auto simp add: coerced_def split: option.splits dest: map_of_SomeD intro: rev_image_eqI)

lemma cleaned_nonempty_columns:
  assumes "cleaned to_datetime to_numeric metric_col rows \<noteq> []"
  shows "rows \<noteq> [] \<and> has_column metric_col rows \<and> has_column PERIOD rows"
proof -
  from assms obtain p v where
    "(Some p, Some v) \<in>
       set (map (\<lambda>row. (coerced to_datetime PERIOD row, coerced to_numeric metric_col row)) rows)"
    unfolding cleaned_def using dropna_nonempty by blast
  then obtain row where r: "row \<in> set rows"
    and p: "coerced to_datetime PERIOD row = Some p"
    and v: "coerced to_numeric metric_col row = Some v"
    by auto
  from r have "rows \<noteq> []" by auto
  moreover from r coerced_Some_column [OF v] have "has_column metric_col rows"
    by (auto simp add: has_column_def list_ex_iff)
  moreover from r coerced_Some_column [OF p] have "has_column PERIOD rows"
    by (auto simp add: has_column_def list_ex_iff)
  ultimately show ?thesis by simp
qed

text \<open>
  The two ways past the guards of lines 60, 71 and 79: a cleaned series that is not empty
  is handed to the model, and one that is empty never is.
\<close>

lemma fitted_run:
  assumes "map_of metric_map selected_metric = Some metric_col"
    and "cleaned to_datetime to_numeric metric_col rows \<noteq> []"
  shows "time_series_forecasting arima to_datetime to_numeric True (Rows rows) selected_metric horizon =
           (case arima (cleaned to_datetime to_numeric metric_col rows) horizon of
              Inl e \<Rightarrow> (ForecastError e, [cleaned to_datetime to_numeric metric_col rows])
            | Inr forecast \<Rightarrow>
                (Forecast (cleaned to_datetime to_numeric metric_col rows)
                   (forecast_df forecast
                      (date_range (next_day (last (map fst (cleaned to_datetime to_numeric metric_col rows))))
                         horizon)),
                 [cleaned to_datetime to_numeric metric_col rows]))"
  using assms cleaned_nonempty_columns [OF assms(2)]
  by (simp add: time_series_forecasting_def Let_def forecast_dates_def split: sum.splits)

lemma unfitted_run:
  assumes "map_of metric_map selected_metric = Some metric_col"
    and "cleaned to_datetime to_numeric metric_col rows = []"
  shows "time_series_forecasting arima to_datetime to_numeric True (Rows rows) selected_metric horizon =
           (if rows = [] then (NoTrendData, [])
            else if \<not> has_column metric_col rows then (NoDataForMetric, [])
            else if \<not> has_column PERIOD rows then (Raised ''KeyError'', [])
            else (NoValidData, []))"
  using assms by (simp add: time_series_forecasting_def Let_def)

subsection \<open>Concrete responses\<close>

lemma cleaned_daily_rows:
  "cleaned iso_datetime json_number TOTAL_CASES daily_rows =
     [((2020, 2, 18), 120), ((2020, 2, 19), 135), ((2020, 2, 20), 128), ((2020, 2, 21), 150),
      ((2020, 2, 22), 171), ((2020, 2, 23), 160), ((2020, 2, 24), 182), ((2020, 2, 25), 190),
      ((2020, 2, 26), 205), ((2020, 2, 27), 198), ((2020, 2, 28), 220), ((2020, 2, 29), 214)]"
  by (simp add: cleaned_def daily_rows_def coerced_def iso_date_def digit_def days_in_month_def
        is_leap_def)



subsection \<open>The forecast points\<close>




subsection \<open>When the model is fitted\<close>

text \<open>
  C6, as the code has it. A response that is not ok or has no rows gives the warning of
  line 106. A series that is empty after the rows with a missing period or value are
  dropped is never handed to the model: the page shows the warning of line 106, 72 or 80,
  and raises when no row has a period. Any other series, however short, is handed to the
  model once, and an exception of the model is reported as the forecast error.
\<close>

theorem fit_attempted_unless_empty:
  "(\<not> (ok \<and> truthy_json json) \<longrightarrow>
      time_series_forecasting arima to_datetime to_numeric ok json selected_metric horizon =
        (NoTrendData, [])) \<and>
   (map_of metric_map selected_metric = Some metric_col \<and>
    cleaned to_datetime to_numeric metric_col rows = [] \<longrightarrow>
      time_series_forecasting arima to_datetime to_numeric True (Rows rows) selected_metric horizon =
        (if rows = [] then (NoTrendData, [])
         else if \<not> has_column metric_col rows then (NoDataForMetric, [])
         else if \<not> has_column PERIOD rows then (Raised ''KeyError'', [])
         else (NoValidData, []))) \<and>
   (map_of metric_map selected_metric = Some metric_col \<and>
    cleaned to_datetime to_numeric metric_col rows \<noteq> [] \<longrightarrow>
      snd (time_series_forecasting arima to_datetime to_numeric True (Rows rows) selected_metric horizon) =
        [cleaned to_datetime to_numeric metric_col rows] \<and>
      (\<forall>e. arima (cleaned to_datetime to_numeric metric_col rows) horizon = Inl e \<longrightarrow>
         fst (time_series_forecasting arima to_datetime to_numeric True (Rows rows) selected_metric horizon) =
           ForecastError e))"
proof (intro conjI impI)
  assume "\<not> (ok \<and> truthy_json json)"
  then show "time_series_forecasting arima to_datetime to_numeric ok json selected_metric horizon =
      (NoTrendData, [])"
    by (auto simp add: time_series_forecasting_def)
next
  assume "map_of metric_map selected_metric = Some metric_col \<and>
    cleaned to_datetime to_numeric metric_col rows = []"
  then show "time_series_forecasting arima to_datetime to_numeric True (Rows rows) selected_metric horizon =
        (if rows = [] then (NoTrendData, [])
         else if \<not> has_column metric_col rows then (NoDataForMetric, [])
         else if \<not> has_column PERIOD rows then (Raised ''KeyError'', [])
         else (NoValidData, []))"
    using unfitted_run by blast
next
  assume a: "map_of metric_map selected_metric = Some metric_col \<and>
    cleaned to_datetime to_numeric metric_col rows \<noteq> []"
  then have m: "map_of metric_map selected_metric = Some metric_col"
    and c: "cleaned to_datetime to_numeric metric_col rows \<noteq> []" by simp_all
  show "snd (time_series_forecasting arima to_datetime to_numeric True (Rows rows) selected_metric horizon) =
        [cleaned to_datetime to_numeric metric_col rows]"
    by (simp add: fitted_run [OF m c] split: sum.splits)
  show "\<forall>e. arima (cleaned to_datetime to_numeric metric_col rows) horizon = Inl e \<longrightarrow>
         fst (time_series_forecasting arima to_datetime to_numeric True (Rows rows) selected_metric horizon) =
           ForecastError e"
    by (simp add: fitted_run [OF m c])
qed

theorem fit_attempted_unless_empty_witness:
  "time_series_forecasting (\<lambda>df steps. Inl ''x'') iso_datetime json_number True (Rows [])
     ''cases'' 14 = (NoTrendData, []) \<and>
   time_series_forecasting (\<lambda>df steps. Inl ''x'') iso_datetime json_number False (Rows daily_rows)
     ''cases'' 14 = (NoTrendData, []) \<and>
   map_of metric_map ''cases'' = Some TOTAL_CASES \<and>
   cleaned iso_datetime json_number TOTAL_CASES
     [[(PERIOD, Null), (TOTAL_CASES, Number 1)], [(PERIOD, Text ''2022-01-01''), (TOTAL_CASES, Null)]] = [] \<and>
   time_series_forecasting (\<lambda>df steps. Inl ''x'') iso_datetime json_number True
     (Rows [[(PERIOD, Null), (TOTAL_CASES, Number 1)], [(PERIOD, Text ''2022-01-01''), (TOTAL_CASES, Null)]])
     ''cases'' 14 = (NoValidData, []) \<and>
   cleaned iso_datetime json_number TOTAL_CASES daily_rows \<noteq> [] \<and>
   time_series_forecasting (\<lambda>df steps. Inl ''x'') iso_datetime json_number True (Rows daily_rows)
     ''cases'' 14 = (ForecastError ''x'', [cleaned iso_datetime json_number TOTAL_CASES daily_rows])"
proof -
  let ?arima = "\<lambda>(df :: (date \<times> int) list) (steps :: nat). (Inl ''x'' :: string + (label \<Rightarrow> int option))"
  let ?nulls = "[[(PERIOD, Null), (TOTAL_CASES, Number 1)],
                 [(PERIOD, Text ''2022-01-01''), (TOTAL_CASES, Null)]]"
  have m: "map_of metric_map ''cases'' = Some TOTAL_CASES" by (simp add: metric_map_def)
  have e: "cleaned iso_datetime json_number TOTAL_CASES ?nulls = []"
    by (simp add: cleaned_def coerced_def iso_date_def digit_def days_in_month_def is_leap_def)
  have n: "cleaned iso_datetime json_number TOTAL_CASES daily_rows \<noteq> []"
    by (simp add: cleaned_daily_rows)
  have h: "has_column TOTAL_CASES ?nulls" "has_column PERIOD ?nulls"
    by (simp_all add: has_column_def)
  show ?thesis
    using m e n h
      fit_attempted_unless_empty [of True "Rows []" ?arima iso_datetime json_number "''cases''" 14
        TOTAL_CASES ?nulls]
      fit_attempted_unless_empty [of False "Rows daily_rows" ?arima iso_datetime json_number "''cases''" 14
        TOTAL_CASES daily_rows]
    by (simp add: prod_eq_iff)
qed

text \<open>
  A series of one clean row, fewer than the sum of the order terms, is fitted: the
  exception of the model is what the page reports.
\<close>

theorem short_series_is_fitted_counterexample:
  "length (cleaned iso_datetime json_number TOTAL_CASES
             [[(PERIOD, Text ''2022-12-31''), (TOTAL_CASES, Number 5)],
              [(PERIOD, Null), (TOTAL_CASES, Number 6)],
              [(PERIOD, Text ''2023-01-01''), (TOTAL_CASES, Null)]]) \<le> order_sum \<and>
   time_series_forecasting (\<lambda>df steps. Inl ''too few observations'') iso_datetime json_number True
       (Rows [[(PERIOD, Text ''2022-12-31''), (TOTAL_CASES, Number 5)],
              [(PERIOD, Null), (TOTAL_CASES, Number 6)],
              [(PERIOD, Text ''2023-01-01''), (TOTAL_CASES, Null)]]) ''cases'' 14 =
     (ForecastError ''too few observations'', [[((2022, 12, 31), 5)]])"
  by (simp add: time_series_forecasting_def metric_map_def has_column_def cleaned_def coerced_def
        iso_date_def digit_def days_in_month_def is_leap_def order_sum_def)

end
